theory Spec2Isabelle
  imports Main "HOL-Library.Word" "HOL-Library.Sublist" "HOL-Library.Multiset"
begin

section \<open>Data model of the discovery controller\<close>

text \<open>
  The Go source has two files: the controller (state machine, registries, pruning) and
  \<^verbatim>\<open>pkg/discovery/config.go\<close> (configuration load/save, mirroring into the configuration
  tree). Every method that takes the controller's lock is one atomic function on the
  controller record here. Logging through the package logger changes no state and is left
  out, except in \<^verbatim>\<open>loadConfig\<close> and \<^verbatim>\<open>saveConfig\<close>, whose warnings are returned.
\<close>

type_synonym uint32 = "32 word"
type_synonym int64 = "64 word"
type_synonym uint64 = "64 word"

text \<open>
  A \<^verbatim>\<open>time.Time\<close> is an instant, here the number of nanoseconds since the Unix epoch;
  a \<^verbatim>\<open>time.Duration\<close> constant is a number of nanoseconds. Every call of
  \<^verbatim>\<open>time.Now()\<close> is a parameter of the function that makes it.
\<close>

type_synonym time = int

definition Second :: int where
  "Second = 1000000000"

definition Minute :: int where
  "Minute = 60 * Second"

definition Add :: "time \<Rightarrow> int \<Rightarrow> time" where
  "Add t d = t + d"

definition Before :: "time \<Rightarrow> time \<Rightarrow> bool" where
  "Before t u = (t < u)"

definition zeroTime :: time where
  "zeroTime = - 62135596800 * Second"

definition UnixNano :: "time \<Rightarrow> int64" where
  "UnixNano t = word_of_int t"

datatype State =
  Disconnected | Connected | PipelineConfigAvailable | Elected
  | PortsDiscovered | Configured | Reconfigured | Stopped

record Port =
  ID :: string
  Number :: uint32
  Status :: string
  LastChange :: uint64

record Link =
  EgressPort :: uint32
  EgressDeviceID :: string
  IngressPort :: uint32
  LastUpdate :: time

record Host =
  MAC :: string
  IP :: string
  Port :: uint32
  LastUpdate :: time

record Config =
  EmitFrequency :: int64
  MaxLinkAge :: int64
  PipelineValidationFrequency :: int64
  PortRediscoveryFrequency :: int64
  LinkPruneFrequency :: int64

text \<open>The panics that the Go runtime and the \<^verbatim>\<open>time\<close> package raise on these paths.\<close>

datatype error =
  AssignToNilMap
  | NilPointerDereference
  | NonPositiveTickerInterval

subsection \<open>The configuration tree and its subscribers\<close>

datatype TypedValue = IntVal int64 | StringVal string | UintVal uint64

text \<open>
  Modelled from the spec: the configuration tree (\<^verbatim>\<open>configtree.Node\<close>) is an external
  collaborator that "accepts hierarchical path+typed-value add/update/delete operations".
  A tree is the map from the paths that were added to their values (\<open>None\<close> for a node
  added without a value); deleting a path removes the node and everything below it.
  \<^verbatim>\<open>gnmiutils.ToPath\<close> only parses the path string, so a notification carries the string.
\<close>

type_synonym Node = "string \<rightharpoonup> TypedValue option"

definition NewRoot :: Node where
  "NewRoot = Map.empty"

definition AddPath :: "string \<Rightarrow> TypedValue \<Rightarrow> Node \<Rightarrow> Node" where
  "AddPath path v root = root(path \<mapsto> Some v)"

definition AddNode :: "string \<Rightarrow> Node \<Rightarrow> Node" where
  "AddNode path root = root(path \<mapsto> None)"

definition GetPath :: "string \<Rightarrow> Node \<Rightarrow> TypedValue option option" where
  "GetPath path root = root path"

definition DeletePath :: "string \<Rightarrow> Node \<Rightarrow> Node" where
  "DeletePath path root =
     (\<lambda>q. if q = path \<or> prefix (path @ ''/'') q then None else root q)"

text \<open>The generated getter returns 0 for a nil value and for a value of another kind.\<close>

fun GetIntVal :: "TypedValue option \<Rightarrow> int64" where
  "GetIntVal (Some (IntVal i)) = i"
| "GetIntVal _ = 0"

record Notification =
  Timestamp :: int64
  Update :: "(string \<times> TypedValue) list"
  Delete :: "string list"

subsection \<open>The controller\<close>

text \<open>
  \<open>links\<close> and \<open>ports\<close> are allocated by \<^verbatim>\<open>NewController\<close> and never reassigned; \<open>hosts\<close>
  is a map that may be nil (\<open>None\<close>). The map values are pointers in the source; each
  pointer is stored under one key only, so the model stores the records themselves and a
  write through the pointer is an update of the map entry. \<open>sent\<close> collects what
  \<^verbatim>\<open>SendToAllResponders\<close> was given. \<open>ctxCancel\<close> tells whether the cancel function
  is set, \<open>ctxDone\<close> whether it was called.
\<close>

record Controller =
  TargetAddress :: string
  IngressDeviceID :: string
  state :: State
  config :: Config
  ports :: "string \<rightharpoonup> Port"
  links :: "uint32 \<rightharpoonup> Link"
  hosts :: "(string \<rightharpoonup> Host) option"
  Root :: Node
  sent :: "Notification list"
  ctxCancel :: bool
  ctxDone :: bool

section \<open>Configuration load and save (config.go)\<close>

text \<open>
  Modelled from the spec: the configuration storage collaborator (viper over the file
  \<^verbatim>\<open>/etc/discovery-agent/config.yaml\<close>). The file is absent, unparsable, or holds the
  entries of its \<^verbatim>\<open>config\<close> section; an entry is an integer or something that does not
  decode into an \<^verbatim>\<open>int64\<close> field. Reading fails on an absent or unparsable file and then
  leaves the reader without settings; decoding overwrites the fields whose keys are
  present and reports an error for each entry that does not decode.
\<close>

datatype yaml = YInt int64 | YOther

datatype ConfigFile = Absent | Unparsable | Parsed "string \<rightharpoonup> yaml"

type_synonym viper = "string \<rightharpoonup> yaml"

definition viper_New :: viper where
  "viper_New = Map.empty"

fun ReadInConfig :: "ConfigFile \<Rightarrow> viper \<Rightarrow> bool \<times> viper" where
  "ReadInConfig Absent v = (True, v)"
| "ReadInConfig Unparsable v = (True, v)"
| "ReadInConfig (Parsed m) v = (False, m)"

definition decodeField :: "viper \<Rightarrow> string \<Rightarrow> int64 \<Rightarrow> bool \<times> int64" where
  "decodeField v key old =
     (case v key of None \<Rightarrow> (False, old) | Some (YInt i) \<Rightarrow> (False, i) | Some YOther \<Rightarrow> (True, old))"

definition Unmarshal :: "viper \<Rightarrow> Config \<Rightarrow> bool \<times> Config" where
  "Unmarshal v w =
     (let (e1, a) = decodeField v ''emitFrequency'' (EmitFrequency w);
          (e2, b) = decodeField v ''maxLinkAge'' (MaxLinkAge w);
          (e3, c) = decodeField v ''pipelineValidationFrequency'' (PipelineValidationFrequency w);
          (e4, d) = decodeField v ''portRediscoveryFrequency'' (PortRediscoveryFrequency w);
          (e5, e) = decodeField v ''linkPruneFrequency'' (LinkPruneFrequency w)
      in (e1 \<or> e2 \<or> e3 \<or> e4 \<or> e5,
          \<lparr>EmitFrequency = a, MaxLinkAge = b, PipelineValidationFrequency = c,
           PortRediscoveryFrequency = d, LinkPruneFrequency = e\<rparr>))"

definition encodeConfig :: "Config \<Rightarrow> viper" where
  "encodeConfig w =
     [''emitFrequency'' \<mapsto> YInt (EmitFrequency w),
      ''maxLinkAge'' \<mapsto> YInt (MaxLinkAge w),
      ''pipelineValidationFrequency'' \<mapsto> YInt (PipelineValidationFrequency w),
      ''portRediscoveryFrequency'' \<mapsto> YInt (PortRediscoveryFrequency w),
      ''linkPruneFrequency'' \<mapsto> YInt (LinkPruneFrequency w)]"

text \<open>
  \<^verbatim>\<open>loadConfig\<close>: the wrapper starts with the defaults; a read error and a decode error
  are each logged, and the wrapper's configuration is returned in every case. The result
  is the configuration and the warnings logged.
\<close>

definition defaultConfig :: Config where
  "defaultConfig =
     \<lparr>EmitFrequency = 5, MaxLinkAge = 30, PipelineValidationFrequency = 60,
      PortRediscoveryFrequency = 60, LinkPruneFrequency = 2\<rparr>"

definition loadConfig :: "ConfigFile \<Rightarrow> Config \<times> string list" where
  "loadConfig file =
     (let wrapper = defaultConfig;
          cfg = viper_New;
          (err1, cfg1) = ReadInConfig file cfg;
          log1 = (if err1 then [''Unable to load config file; using defaults''] else []);
          (err2, wrapper') = Unmarshal cfg1 wrapper;
          log2 = (if err2 then [''Unable to parse config file; using defaults''] else [])
      in (wrapper', log1 @ log2))"

text \<open>
  \<^verbatim>\<open>saveConfig\<close>: \<open>writable\<close> tells whether \<^verbatim>\<open>WriteConfigAs\<close> succeeds. The function
  has no result in the source; the model returns the file afterwards and the warnings.
\<close>

definition saveConfig :: "bool \<Rightarrow> Config \<Rightarrow> ConfigFile \<Rightarrow> ConfigFile \<times> string list" where
  "saveConfig writable cfg file =
     (if writable then (Parsed (encodeConfig cfg), [])
      else (file, [''Unable to save config file'']))"

definition createConfigRoot :: "string \<Rightarrow> Config \<Rightarrow> Node" where
  "createConfigRoot agentID cfg =
     (let root = NewRoot;
          root = AddPath ''state/agent-id'' (StringVal agentID) root;
          root = AddPath ''config/emitFrequency'' (IntVal (EmitFrequency cfg)) root;
          root = AddPath ''config/maxLinkAge'' (IntVal (MaxLinkAge cfg)) root;
          root = AddPath ''config/pipelineValidationFrequency''
                   (IntVal (PipelineValidationFrequency cfg)) root;
          root = AddPath ''config/portRediscoveryFrequency''
                   (IntVal (PortRediscoveryFrequency cfg)) root;
          root = AddPath ''config/linkPruneFrequency'' (IntVal (LinkPruneFrequency cfg)) root
      in AddNode ''state/links'' root)"

section \<open>Controller construction and lifecycle state\<close>

text \<open>
  \<^verbatim>\<open>NewController\<close> allocates \<open>ports\<close> and \<open>links\<close>; the composite literal does not
  mention \<open>hosts\<close>, \<open>state\<close> or the context, which keep their zero values.
\<close>

definition NewController :: "ConfigFile \<Rightarrow> string \<Rightarrow> string \<Rightarrow> Controller" where
  "NewController file targetAddress agentID =
     (let cfg = fst (loadConfig file)
      in \<lparr>TargetAddress = targetAddress, IngressDeviceID = agentID,
          state = Disconnected, config = cfg,
          ports = Map.empty, links = Map.empty, hosts = None,
          Root = createConfigRoot agentID cfg, sent = [],
          ctxCancel = False, ctxDone = False\<rparr>)"

definition getState :: "Controller \<Rightarrow> State" where
  "getState c = state c"

definition setState :: "State \<Rightarrow> Controller \<Rightarrow> Controller" where
  "setState s c = c\<lparr>state := s\<rparr>"

definition setStateIf :: "State \<Rightarrow> State \<Rightarrow> Controller \<Rightarrow> Controller" where
  "setStateIf condition s c = (if state c = condition then c\<lparr>state := s\<rparr> else c)"

definition Stop :: "Controller \<Rightarrow> Controller" where
  "Stop c =
     (let c = setState Stopped c
      in if ctxCancel c then c\<lparr>ctxDone := True\<rparr> else c)"

definition reenterDiscovery :: "Controller \<Rightarrow> Controller" where
  "reenterDiscovery c = setState Configured c"

text \<open>
  \<^verbatim>\<open>UpdateConfig\<close> reads the five values back from the tree into the configuration,
  saves, and makes the conditional transition. \<^verbatim>\<open>GetPath\<close> yields nil for a path that
  is not in the tree, and \<^verbatim>\<open>Value()\<close> on nil dereferences it; the panic ends the call.
\<close>

definition readIntVal :: "Node \<Rightarrow> string \<Rightarrow> error + int64" where
  "readIntVal root path =
     (case GetPath path root of
        None \<Rightarrow> Inl NilPointerDereference
      | Some v \<Rightarrow> Inr (GetIntVal v))"

definition UpdateConfig ::
  "bool \<Rightarrow> ConfigFile \<Rightarrow> Controller \<Rightarrow> error + (Controller \<times> ConfigFile \<times> string list)" where
  "UpdateConfig writable file c =
     (let root = Root c in
      (case readIntVal root ''config/emitFrequency'' of Inl e \<Rightarrow> Inl e | Inr a \<Rightarrow>
      (case readIntVal root ''config/maxLinkAge'' of Inl e \<Rightarrow> Inl e | Inr b \<Rightarrow>
      (case readIntVal root ''config/pipelineValidationFrequency'' of Inl e \<Rightarrow> Inl e | Inr p \<Rightarrow>
      (case readIntVal root ''config/portRediscoveryFrequency'' of Inl e \<Rightarrow> Inl e | Inr d \<Rightarrow>
      (case readIntVal root ''config/linkPruneFrequency'' of Inl e \<Rightarrow> Inl e | Inr l \<Rightarrow>
        (let cfg = (config c)\<lparr>EmitFrequency := a, MaxLinkAge := b,
                     PipelineValidationFrequency := p, PortRediscoveryFrequency := d,
                     LinkPruneFrequency := l\<rparr>;
             c1 = c\<lparr>config := cfg\<rparr>;
             saved = saveConfig writable (config c1) file
         in Inr (setStateIf Configured Reconfigured c1, fst saved, snd saved))))))))"

section \<open>Mirroring links and hosts into the tree (config.go)\<close>

text \<open>\<^verbatim>\<open>%d\<close> of an unsigned number: its decimal digits, most significant first.\<close>

fun decimal :: "nat \<Rightarrow> string" where
  "decimal n =
     (if n < 10 then [''0123456789'' ! n]
      else decimal (n div 10) @ [''0123456789'' ! (n mod 10)])"

declare decimal.simps [simp del]

definition linkPath :: "uint32 \<Rightarrow> string" where
  "linkPath ingressPort = ''state/link[port='' @ decimal (unat ingressPort) @ '']''"

definition SendToAllResponders :: "Notification \<Rightarrow> Controller \<Rightarrow> Controller" where
  "SendToAllResponders n c = c\<lparr>sent := sent c @ [n]\<rparr>"

text \<open>
  \<^verbatim>\<open>addLinkToTree\<close> reads the clock twice: \<open>tc\<close> for the create time, \<open>tn\<close> for the
  notification's timestamp.
\<close>

definition addLinkToTree ::
  "time \<Rightarrow> time \<Rightarrow> uint32 \<Rightarrow> uint32 \<Rightarrow> string \<Rightarrow> Controller \<Rightarrow> Controller" where
  "addLinkToTree tc tn ingressPort egressPort egressDeviceID c =
     (let portPath = linkPath ingressPort @ ''/egress-port'';
          portVal = IntVal (ucast egressPort);
          devicePath = linkPath ingressPort @ ''/egress-device'';
          deviceVal = StringVal egressDeviceID;
          createTimePath = linkPath ingressPort @ ''/create-time'';
          createTimeVal = UintVal (UnixNano tc);
          c = c\<lparr>Root := AddPath portPath portVal (Root c)\<rparr>;
          c = c\<lparr>Root := AddPath devicePath deviceVal (Root c)\<rparr>;
          c = c\<lparr>Root := AddPath createTimePath createTimeVal (Root c)\<rparr>
      in SendToAllResponders
           \<lparr>Timestamp = UnixNano tn,
            Update = [(portPath, portVal), (devicePath, deviceVal),
                      (createTimePath, createTimeVal)],
            Delete = []\<rparr> c)"

definition removeLinkFromTree :: "time \<Rightarrow> uint32 \<Rightarrow> Controller \<Rightarrow> Controller" where
  "removeLinkFromTree tn ingressPort c =
     (let path = linkPath ingressPort;
          c = c\<lparr>Root := DeletePath path (Root c)\<rparr>
      in SendToAllResponders
           \<lparr>Timestamp = UnixNano tn, Update = [], Delete = [path]\<rparr> c)"

definition addHostToTree ::
  "time \<Rightarrow> time \<Rightarrow> string \<Rightarrow> string \<Rightarrow> uint32 \<Rightarrow> Controller \<Rightarrow> Controller" where
  "addHostToTree tc tn macString ipString port c =
     (let portPath = ''state/host[mac='' @ macString @ '']/port'';
          portVal = IntVal (ucast port);
          ipPath = ''state/link[mac='' @ macString @ '']/ip-address'';
          ipVal = StringVal ipString;
          createTimePath = ''state/link[mac='' @ macString @ '']/create-time'';
          createTimeVal = UintVal (UnixNano tc);
          c = c\<lparr>Root := AddPath portPath portVal (Root c)\<rparr>;
          c = c\<lparr>Root := AddPath ipPath ipVal (Root c)\<rparr>;
          c = c\<lparr>Root := AddPath createTimePath createTimeVal (Root c)\<rparr>
      in SendToAllResponders
           \<lparr>Timestamp = UnixNano tn,
            Update = [(portPath, portVal), (ipPath, ipVal), (createTimePath, createTimeVal)],
            Delete = []\<rparr> c)"

definition removeHostFromTree :: "time \<Rightarrow> string \<Rightarrow> Controller \<Rightarrow> Controller" where
  "removeHostFromTree tn macString c =
     (let path = ''state/host[mac='' @ macString @ '']'';
          c = c\<lparr>Root := DeletePath path (Root c)\<rparr>
      in SendToAllResponders
           \<lparr>Timestamp = UnixNano tn, Update = [], Delete = [path]\<rparr> c)"

section \<open>The link and host registries\<close>

text \<open>
  \<^verbatim>\<open>updateIngressLink\<close>: \<open>tc\<close> and \<open>tn\<close> are the clock readings of \<^verbatim>\<open>addLinkToTree\<close>,
  \<open>tu\<close> the one stored as the last update. A new link is built when the port is unknown
  or its remote end differs; the time stamp is written in both cases.
\<close>

definition updateIngressLink ::
  "time \<Rightarrow> time \<Rightarrow> time \<Rightarrow> uint32 \<Rightarrow> uint32 \<Rightarrow> string \<Rightarrow> Controller \<Rightarrow> Controller" where
  "updateIngressLink tc tn tu ingressPort egressPort egressDeviceID c =
     (let found = links c ingressPort;
          replace = (case found of
                       None \<Rightarrow> True
                     | Some link \<Rightarrow> EgressPort link \<noteq> egressPort
                                    \<or> EgressDeviceID link \<noteq> egressDeviceID);
          link = (case found of
                    Some l \<Rightarrow> if replace
                              then \<lparr>EgressPort = egressPort, EgressDeviceID = egressDeviceID,
                                    IngressPort = ingressPort, LastUpdate = zeroTime\<rparr>
                              else l
                  | None \<Rightarrow> \<lparr>EgressPort = egressPort, EgressDeviceID = egressDeviceID,
                             IngressPort = ingressPort, LastUpdate = zeroTime\<rparr>);
          c = (if replace
               then addLinkToTree tc tn ingressPort egressPort egressDeviceID
                      (c\<lparr>links := (links c)(ingressPort \<mapsto> link)\<rparr>)
               else c)
      in c\<lparr>links := (links c)(ingressPort \<mapsto> link\<lparr>Link.LastUpdate := tu\<rparr>)\<rparr>)"

definition deleteLink :: "time \<Rightarrow> uint32 \<Rightarrow> Controller \<Rightarrow> Controller" where
  "deleteLink tn ingressPort c =
     removeLinkFromTree tn ingressPort (c\<lparr>links := (links c)(ingressPort := None)\<rparr>)"

text \<open>Deleting from a nil map is a no-op.\<close>

definition deleteHost :: "time \<Rightarrow> string \<Rightarrow> Controller \<Rightarrow> Controller" where
  "deleteHost tn macString c =
     removeHostFromTree tn macString
       (c\<lparr>hosts := map_option (\<lambda>m. m(macString := None)) (hosts c)\<rparr>)"

text \<open>
  \<^verbatim>\<open>pruneLinks\<close>: \<open>now\<close> is the clock reading for the limit. \<open>order\<close> is the order in
  which the \<^verbatim>\<open>range\<close> loop visits the keys (Go leaves it unspecified), and \<open>tdel k\<close> the
  clock reading of the delete notification for key \<open>k\<close>. A key deleted before it is reached
  is not visited. The limit is the constant 30 seconds of the source.
\<close>

definition pruneLinks ::
  "time \<Rightarrow> (uint32 \<Rightarrow> time) \<Rightarrow> uint32 list \<Rightarrow> Controller \<Rightarrow> Controller" where
  "pruneLinks now tdel order c =
     (let limit = Add now (- 30 * Second)
      in fold (\<lambda>ingressPort c.
                 case links c ingressPort of
                   None \<Rightarrow> c
                 | Some link \<Rightarrow>
                     if Before (Link.LastUpdate link) limit
                     then deleteLink (tdel ingressPort) ingressPort c
                     else c)
              order c)"

text \<open>
  \<^verbatim>\<open>updateHost\<close>: reading a nil map finds nothing; assigning to an entry of a nil map
  panics.
\<close>

definition updateHost ::
  "time \<Rightarrow> time \<Rightarrow> time \<Rightarrow> string \<Rightarrow> string \<Rightarrow> uint32 \<Rightarrow> Controller \<Rightarrow> error + Controller" where
  "updateHost tc tn tu macString ipString port c =
     (let found = (case hosts c of None \<Rightarrow> None | Some m \<Rightarrow> m macString);
          replace = (case found of
                       None \<Rightarrow> True
                     | Some host \<Rightarrow> MAC host \<noteq> macString \<or> IP host \<noteq> ipString
                                    \<or> Port host \<noteq> port);
          host = (case found of
                    Some h \<Rightarrow> if replace
                              then \<lparr>MAC = macString, IP = ipString, Port = port,
                                    LastUpdate = zeroTime\<rparr>
                              else h
                  | None \<Rightarrow> \<lparr>MAC = macString, IP = ipString, Port = port,
                             LastUpdate = zeroTime\<rparr>);
          touch = (\<lambda>c. c\<lparr>hosts := map_option
                                      (\<lambda>m. m(macString \<mapsto> host\<lparr>Host.LastUpdate := tu\<rparr>))
                                      (hosts c)\<rparr>)
      in if replace
         then (case hosts c of
                 None \<Rightarrow> Inl AssignToNilMap
               | Some m \<Rightarrow>
                   Inr (touch (addHostToTree tc tn macString ipString port
                                 (c\<lparr>hosts := Some (m(macString \<mapsto> host))\<rparr>))))
         else Inr (touch c))"

text \<open>\<^verbatim>\<open>pruneHosts\<close>: as \<^verbatim>\<open>pruneLinks\<close>, with 30 minutes; a nil map has no keys to visit.\<close>

definition pruneHosts ::
  "time \<Rightarrow> (string \<Rightarrow> time) \<Rightarrow> string list \<Rightarrow> Controller \<Rightarrow> Controller" where
  "pruneHosts now tdel order c =
     (let limit = Add now (- 30 * Minute)
      in fold (\<lambda>mac c.
                 case (case hosts c of None \<Rightarrow> None | Some m \<Rightarrow> m mac) of
                   None \<Rightarrow> c
                 | Some host \<Rightarrow>
                     if Before (Host.LastUpdate host) limit
                     then deleteHost (tdel mac) mac c
                     else c)
              order c)"

text \<open>
  \<^verbatim>\<open>GetLinks\<close>: \<open>order\<close> is the order in which the \<^verbatim>\<open>range\<close> loop visits the keys. The
  links are appended to a new slice in that order and the slice is sorted stably by
  ingress port. The controller is only read.
\<close>

definition GetLinks :: "uint32 list \<Rightarrow> Controller \<Rightarrow> Link list" where
  "GetLinks order c = sort_key IngressPort (List.map_filter (links c) order)"

section \<open>The worker loop and the steady-state loop\<close>

text \<open>
  The handlers of the states before \<open>PortsDiscovered\<close> and the actions of three of the
  four timers are methods of the controller that are not in the two source files; they
  are parameters here, each one atomic function on the controller.
\<close>

record Collaborators =
  waitForDeviceConnection :: "Controller \<Rightarrow> Controller"
  waitForPipelineConfiguration :: "Controller \<Rightarrow> Controller"
  waitForMastershipArbitration :: "Controller \<Rightarrow> Controller"
  discoverPorts :: "Controller \<Rightarrow> Controller"
  programPacketInterceptRules :: "Controller \<Rightarrow> Controller"
  emitLLDPPackets :: "Controller \<Rightarrow> Controller"
  validatePipelineConfiguration :: "Controller \<Rightarrow> Controller"

text \<open>
  \<^verbatim>\<open>time.NewTicker\<close> returns a ticker and panics on an interval that is not positive.
  The interval is \<^verbatim>\<open>time.Duration(n) * time.Second\<close>, an \<^verbatim>\<open>int64\<close> product. The
  tickers of \<^verbatim>\<open>enterDiscovery\<close> are local variables that only feed its \<^verbatim>\<open>select\<close>;
  the source never calls their \<^verbatim>\<open>Stop\<close>, and what the Go runtime does with a ticker
  once the function has returned is not part of this model.
\<close>

record Ticker =
  interval :: int64

definition seconds :: "int64 \<Rightarrow> int64" where
  "seconds n = n * 1000000000"

definition NewTicker :: "int64 \<Rightarrow> error + Ticker" where
  "NewTicker d =
     (if sint d \<le> 0 then Inl NonPositiveTickerInterval else Inr \<lparr>interval = d\<rparr>)"

text \<open>
  The worker runs \<^verbatim>\<open>run\<close>; other goroutines call \<^verbatim>\<open>Stop\<close> while it does. Each
  access to the controller takes the lock on its own, so the worker's reading of the
  state and the handler it then calls are separate steps, and a call from another
  goroutine can fall between them. The worker is at the head of the loop of \<^verbatim>\<open>run\<close>
  (\<open>RunLoop\<close>), has read a state and is about to call its handler (\<open>Dispatched\<close>), is at
  the head of the loop of \<^verbatim>\<open>enterDiscovery\<close> (\<open>DiscoveryLoop\<close>), waits in its
  \<^verbatim>\<open>select\<close> (\<open>DiscoverySelect\<close>), or has left \<^verbatim>\<open>run\<close> (\<open>Returned\<close>).
\<close>

datatype pc = RunLoop | Dispatched State | DiscoveryLoop | DiscoverySelect | Returned

record System =
  ctrl :: Controller
  worker :: pc
  listeners :: nat

definition setupForDiscovery :: "Collaborators \<Rightarrow> System \<Rightarrow> System" where
  "setupForDiscovery h s =
     (let c = programPacketInterceptRules h (ctrl s);
          c = setState Configured c
      in s\<lparr>ctrl := c, listeners := listeners s + 1\<rparr>)"

text \<open>
  The four tickers that \<^verbatim>\<open>enterDiscovery\<close> creates before its loop, in the order of the
  source: \<^verbatim>\<open>tLinks\<close>, \<^verbatim>\<open>tConf\<close>, \<^verbatim>\<open>tPorts\<close>, \<^verbatim>\<open>tPrune\<close>.
\<close>

definition enterDiscovery_tickers ::
  "Config \<Rightarrow> error + (Ticker \<times> Ticker \<times> Ticker \<times> Ticker)" where
  "enterDiscovery_tickers cfg =
     (case NewTicker (seconds (EmitFrequency cfg)) of Inl e \<Rightarrow> Inl e | Inr tLinks \<Rightarrow>
     (case NewTicker (seconds (PipelineValidationFrequency cfg)) of Inl e \<Rightarrow> Inl e | Inr tConf \<Rightarrow>
     (case NewTicker (seconds (PortRediscoveryFrequency cfg)) of Inl e \<Rightarrow> Inl e | Inr tPorts \<Rightarrow>
     (case NewTicker (seconds (LinkPruneFrequency cfg)) of Inl e \<Rightarrow> Inl e | Inr tPrune \<Rightarrow>
        Inr (tLinks, tConf, tPorts, tPrune)))))"

text \<open>
  One step of the worker. The \<^verbatim>\<open>switch\<close> of \<^verbatim>\<open>run\<close> has no case for \<open>Stopped\<close>.
  The function \<^verbatim>\<open>enterDiscovery\<close> returns to the loop of \<^verbatim>\<open>run\<close> when it reads a
  state other than \<open>Configured\<close>; it has no statement after its loop.
\<close>

fun worker_step :: "Collaborators \<Rightarrow> System \<Rightarrow> error + System" where
  "worker_step h s =
     (case worker s of
        RunLoop \<Rightarrow>
          (let st = getState (ctrl s)
           in if st \<noteq> Stopped then Inr (s\<lparr>worker := Dispatched st\<rparr>)
              else Inr (s\<lparr>worker := Returned\<rparr>))
      | Dispatched Disconnected \<Rightarrow>
          Inr (s\<lparr>ctrl := waitForDeviceConnection h (ctrl s), worker := RunLoop\<rparr>)
      | Dispatched Connected \<Rightarrow>
          Inr (s\<lparr>ctrl := waitForPipelineConfiguration h (ctrl s), worker := RunLoop\<rparr>)
      | Dispatched PipelineConfigAvailable \<Rightarrow>
          Inr (s\<lparr>ctrl := waitForMastershipArbitration h (ctrl s), worker := RunLoop\<rparr>)
      | Dispatched Elected \<Rightarrow>
          Inr (s\<lparr>ctrl := discoverPorts h (ctrl s), worker := RunLoop\<rparr>)
      | Dispatched PortsDiscovered \<Rightarrow>
          Inr ((setupForDiscovery h s)\<lparr>worker := RunLoop\<rparr>)
      | Dispatched Configured \<Rightarrow>
          (case enterDiscovery_tickers (config (ctrl s)) of
             Inl e \<Rightarrow> Inl e
           | Inr ts \<Rightarrow> Inr (s\<lparr>worker := DiscoveryLoop\<rparr>))
      | Dispatched Reconfigured \<Rightarrow>
          Inr (s\<lparr>ctrl := reenterDiscovery (ctrl s), worker := RunLoop\<rparr>)
      | Dispatched Stopped \<Rightarrow> Inr (s\<lparr>worker := RunLoop\<rparr>)
      | DiscoveryLoop \<Rightarrow>
          (if getState (ctrl s) = Configured then Inr (s\<lparr>worker := DiscoverySelect\<rparr>)
           else Inr (s\<lparr>worker := RunLoop\<rparr>))
      | DiscoverySelect \<Rightarrow> Inr s
      | Returned \<Rightarrow> Inr s)"

text \<open>
  A tick received by the \<^verbatim>\<open>select\<close>. The prune tick carries the clock readings and the
  iteration orders of \<^verbatim>\<open>pruneLinks\<close> and \<^verbatim>\<open>pruneHosts\<close>.
\<close>

datatype tick =
  TLinks | TPorts | TConf
  | TPrune time "uint32 \<Rightarrow> time" "uint32 list" time "string \<Rightarrow> time" "string list"

fun on_tick :: "Collaborators \<Rightarrow> tick \<Rightarrow> Controller \<Rightarrow> Controller" where
  "on_tick h TLinks c = emitLLDPPackets h c"
| "on_tick h TPorts c = discoverPorts h c"
| "on_tick h TConf c = validatePipelineConfiguration h c"
| "on_tick h (TPrune nl dl ol nh dh oh) c = pruneHosts nh dh oh (pruneLinks nl dl ol c)"

text \<open>
  What can happen next: the worker takes a step, a ticker's tick is received by the
  waiting \<^verbatim>\<open>select\<close> (elsewhere it has no receiver), or another goroutine calls
  \<^verbatim>\<open>Stop\<close>.
\<close>

datatype action = Worker | Fire tick | CallStop

fun act :: "Collaborators \<Rightarrow> action \<Rightarrow> System \<Rightarrow> error + System" where
  "act h Worker s = worker_step h s"
| "act h (Fire t) s =
     (if worker s = DiscoverySelect
      then Inr (s\<lparr>ctrl := on_tick h t (ctrl s), worker := DiscoveryLoop\<rparr>)
      else Inr s)"
| "act h CallStop s = Inr (s\<lparr>ctrl := Stop (ctrl s)\<rparr>)"

fun exec :: "Collaborators \<Rightarrow> action list \<Rightarrow> System \<Rightarrow> error + System" where
  "exec h [] s = Inr s"
| "exec h (a # as) s = (case act h a s of Inl e \<Rightarrow> Inl e | Inr s' \<Rightarrow> exec h as s')"

section \<open>Sequences of registry operations\<close>

datatype op =
  UpdateIngressLink time time time uint32 uint32 string
  | UpdateHost time time time string string uint32
  | PruneLinks time "uint32 \<Rightarrow> time" "uint32 list"
  | PruneHosts time "string \<Rightarrow> time" "string list"
  | DeleteLink time uint32
  | DeleteHost time string

fun apply_op :: "op \<Rightarrow> Controller \<Rightarrow> error + Controller" where
  "apply_op (UpdateIngressLink tc tn tu p e d) c = Inr (updateIngressLink tc tn tu p e d c)"
| "apply_op (UpdateHost tc tn tu m i p) c = updateHost tc tn tu m i p c"
| "apply_op (PruneLinks now tdel order) c = Inr (pruneLinks now tdel order c)"
| "apply_op (PruneHosts now tdel order) c = Inr (pruneHosts now tdel order c)"
| "apply_op (DeleteLink tn p) c = Inr (deleteLink tn p c)"
| "apply_op (DeleteHost tn m) c = Inr (deleteHost tn m c)"

fun apply_ops :: "op list \<Rightarrow> Controller \<Rightarrow> error + Controller" where
  "apply_ops [] c = Inr c"
| "apply_ops (x # xs) c = (case apply_op x c of Inl e \<Rightarrow> Inl e | Inr c' \<Rightarrow> apply_ops xs c')"

text \<open>Every key of a registry is the key field of the entry stored under it.\<close>

definition key_coherent :: "Controller \<Rightarrow> bool" where
  "key_coherent c \<longleftrightarrow>
     (\<forall>k l. links c k = Some l \<longrightarrow> IngressPort l = k)
     \<and> (\<forall>m k h. hosts c = Some m \<longrightarrow> m k = Some h \<longrightarrow> MAC h = k)"

section \<open>Lifecycle state: conditional transition\<close>

lemma UpdateConfig_state:
  assumes "UpdateConfig writable file c = Inr (c', file', warnings)"
  shows "state c' = (if state c = Configured then Reconfigured else state c)"
  using assms
  by (auto simp: UpdateConfig_def Let_def setStateIf_def
           split: sum.splits prod.splits if_splits)

text \<open>
  C4. For every current state, \<^verbatim>\<open>setStateIf(Configured, Reconfigured)\<close> ends in
  \<open>Reconfigured\<close> exactly when the state was \<open>Configured\<close> and otherwise changes nothing
  (so \<open>Elected\<close> stays \<open>Elected\<close>); it touches no other field. Whenever
  \<^verbatim>\<open>UpdateConfig\<close> returns, the state it leaves is the one this conditional transition gives.
\<close>

theorem setStateIf_Configured_Reconfigured:
  "setStateIf Configured Reconfigured c =
     (if state c = Configured then c\<lparr>state := Reconfigured\<rparr> else c)
   \<and> (state (setStateIf Configured Reconfigured c) = Reconfigured
        \<longleftrightarrow> state c = Configured \<or> state c = Reconfigured)
   \<and> (state c \<noteq> Configured \<longrightarrow> setStateIf Configured Reconfigured c = c)
   \<and> (state c = Elected \<longrightarrow> state (setStateIf Configured Reconfigured c) = Elected)
   \<and> (\<forall>writable file c' file' warnings.
        UpdateConfig writable file c = Inr (c', file', warnings) \<longrightarrow>
        state c' = (if state c = Configured then Reconfigured else state c))"
  using UpdateConfig_state [of _ _ c]
  by (auto simp: setStateIf_def)

lemma UpdateConfig_NewController_total:
  "\<exists>c' file' ws. UpdateConfig writable file (setState s (NewController cf a b)) = Inr (c', file', ws)"
  by (simp add: UpdateConfig_def readIntVal_def GetPath_def createConfigRoot_def AddPath_def
        AddNode_def NewRoot_def NewController_def setState_def Let_def)

theorem setStateIf_Configured_Reconfigured_witness:
  "(let c = setState Elected (NewController Absent ''sw1:9559'' ''agent1'')
    in state c = Elected \<and> state c \<noteq> Configured
       \<and> setStateIf Configured Reconfigured c = c
       \<and> (\<exists>c' file' ws. UpdateConfig True Absent c = Inr (c', file', ws) \<and> state c' = Elected))
   \<and> (let c = setState Configured (NewController Absent ''sw1:9559'' ''agent1'')
      in state c = Configured
         \<and> state (setStateIf Configured Reconfigured c) = Reconfigured
         \<and> (\<exists>c' file' ws. UpdateConfig True Absent c = Inr (c', file', ws)
              \<and> state c' = Reconfigured))"
proof -
  let ?n = "NewController Absent ''sw1:9559'' ''agent1''"
  let ?c1 = "setState Elected ?n"
  let ?c2 = "setState Configured ?n"
  have s1: "state ?c1 = Elected" and s2: "state ?c2 = Configured"
    by (simp_all add: setState_def)
  obtain c1' f1 w1 where u1: "UpdateConfig True Absent ?c1 = Inr (c1', f1, w1)"
    using UpdateConfig_NewController_total by blast
  obtain c2' f2 w2 where u2: "UpdateConfig True Absent ?c2 = Inr (c2', f2, w2)"
    using UpdateConfig_NewController_total by blast
  have "state c1' = (if state ?c1 = Configured then Reconfigured else state ?c1)"
    using setStateIf_Configured_Reconfigured [of ?c1] u1 by blast
  with s1 have a2: "state c1' = Elected" by simp
  have a1: "setStateIf Configured Reconfigured ?c1 = ?c1"
    using setStateIf_Configured_Reconfigured [of ?c1] s1 by simp
  have "state c2' = (if state ?c2 = Configured then Reconfigured else state ?c2)"
    using setStateIf_Configured_Reconfigured [of ?c2] u2 by blast
  with s2 have b2: "state c2' = Reconfigured" by simp
  have b1: "state (setStateIf Configured Reconfigured ?c2) = Reconfigured"
    using setStateIf_Configured_Reconfigured [of ?c2] s2 by simp
  show ?thesis
    unfolding Let_def using s1 s2 u1 u2 a1 a2 b1 b2 by simp
qed

section \<open>Panics\<close>

text \<open>
  C2. The specification has no operation panic on a controller made by
  \<^verbatim>\<open>NewController\<close>. The constructor leaves the \<open>hosts\<close> map nil, so the first \<^verbatim>\<open>updateHost\<close>, whatever
  its arguments and whatever the configuration file, finds no entry and panics on the
  assignment to an entry of a nil map.
\<close>

theorem updateHost_panics_on_new_controller:
  "updateHost tc tn tu macString ipString port (NewController file targetAddress agentID)
     = Inl AssignToNilMap"
  by (simp add: updateHost_def NewController_def Let_def)

theorem updateHost_panics_on_new_controller_witness:
  "updateHost 1 2 3 ''aa:bb:cc:dd:ee:ff'' ''10.0.0.1'' 4 (NewController Absent ''sw1:9559'' ''agent1'')
     = Inl AssignToNilMap"
  by (rule updateHost_panics_on_new_controller)

section \<open>Loading and saving the configuration\<close>




section \<open>Pruning links\<close>

lemma links_removeLinkFromTree: "links (removeLinkFromTree tn p c) = links c"
  by (simp add: removeLinkFromTree_def SendToAllResponders_def Let_def)

lemma links_deleteLink: "links (deleteLink tn p c) = (links c)(p := None)"
  by (simp add: deleteLink_def links_removeLinkFromTree)

lemma links_fold_prune:
  "links (fold (\<lambda>ingressPort c.
                 case links c ingressPort of
                   None \<Rightarrow> c
                 | Some link \<Rightarrow>
                     if Before (Link.LastUpdate link) limit
                     then deleteLink (tdel ingressPort) ingressPort c
                     else c) order c) k
   = (case links c k of
        None \<Rightarrow> None
      | Some l \<Rightarrow> if k \<in> set order \<and> Before (Link.LastUpdate l) limit then None else Some l)"
  by (induction order arbitrary: c) (auto simp: links_deleteLink split: option.splits)

lemma links_pruneLinks:
  "links (pruneLinks now tdel order c) k
   = (case links c k of
        None \<Rightarrow> None
      | Some l \<Rightarrow> if k \<in> set order \<and> Link.LastUpdate l < now - 30 * Second then None else Some l)"
  by (simp add: pruneLinks_def links_fold_prune Before_def Add_def split: option.splits)

text \<open>
  C1. The specification has a prune pass remove every link whose last update is older
  than \<^verbatim>\<open>Config.MaxLinkAge\<close> seconds and keep the others. \<^verbatim>\<open>pruneLinks\<close> never reads
  the configuration: whatever the configuration is, the pass removes a link exactly when
  its key is visited and its last update is more than the constant 30 seconds before the
  pass. A link that is older than \<^verbatim>\<open>MaxLinkAge\<close> and younger than 30 seconds is kept.
\<close>

theorem pruneLinks_limit_is_30_seconds:
  "links (pruneLinks now tdel order (c\<lparr>config := cfg\<rparr>)) k
   = (case links c k of
        None \<Rightarrow> None
      | Some l \<Rightarrow>
          if k \<in> set order \<and> Link.LastUpdate l < now - 30 * Second then None else Some l)"
  by (simp add: links_pruneLinks)

theorem pruneLinks_limit_is_30_seconds_witness:
  "(let c0 = NewController (Parsed [''maxLinkAge'' \<mapsto> YInt 10]) ''sw1:9559'' ''agent1'';
        c1 = updateIngressLink 0 0 0 1 7 ''deviceB'' c0;
        c2 = pruneLinks (20 * Second) (\<lambda>k. 20 * Second) [1] c1
    in MaxLinkAge (config c1) = 10
       \<and> links c1 1 = Some \<lparr>EgressPort = 7, EgressDeviceID = ''deviceB'', IngressPort = 1,
                             LastUpdate = 0\<rparr>
       \<and> links c2 1 = links c1 1)"
proof -
  let ?c0 = "NewController (Parsed [''maxLinkAge'' \<mapsto> YInt 10]) ''sw1:9559'' ''agent1''"
  let ?c1 = "updateIngressLink 0 0 0 1 7 ''deviceB'' ?c0"
  have m: "MaxLinkAge (config ?c1) = 10"
    and l: "links ?c1 1 = Some \<lparr>EgressPort = 7, EgressDeviceID = ''deviceB'', IngressPort = 1,
                             LastUpdate = 0\<rparr>"
    by (simp_all add: updateIngressLink_def NewController_def loadConfig_def Let_def
          defaultConfig_def viper_New_def Unmarshal_def decodeField_def addLinkToTree_def
          SendToAllResponders_def)
  have "links (pruneLinks (20 * Second) (\<lambda>k. 20 * Second) [1] ?c1) 1 = links ?c1 1"
    using pruneLinks_limit_is_30_seconds
      [where now = "20 * Second" and tdel = "\<lambda>k. 20 * Second" and order = "[1]"
        and c = ?c1 and cfg = "config ?c1" and k = 1] l
    by (simp add: Second_def)
  with m l show ?thesis by (simp add: Let_def)
qed

section \<open>Repeated and changed link observations\<close>

text \<open>
  C3. After \<^verbatim>\<open>updateIngressLink(p, e, d)\<close> on any controller, the entry of \<open>p\<close> has
  the remote end \<open>e\<close>, \<open>d\<close>; repeating the call changes the time stamp of that entry and
  nothing else: the other fields of the entry, the tree and the notifications sent stay as
  they were. When the entry of \<open>p\<close> has another egress port or egress device than the call
  names, the entry is replaced by a new link with the call's values, the three paths of the
  link are written to the tree and one update notification with them is sent.
\<close>

theorem updateIngressLink_refresh_or_replace:
  "(let c1 = updateIngressLink tc tn tu p e d c;
        c2 = updateIngressLink tc' tn' tu' p e d c1
    in (\<exists>l. links c1 p = Some l
            \<and> EgressPort l = e \<and> EgressDeviceID l = d \<and> Link.LastUpdate l = tu
            \<and> c2 = c1\<lparr>links := (links c1)(p \<mapsto> l\<lparr>Link.LastUpdate := tu'\<rparr>)\<rparr>)
       \<and> sent c2 = sent c1 \<and> Root c2 = Root c1)
   \<and> (\<forall>l. links c p = Some l \<longrightarrow> (EgressPort l \<noteq> e' \<or> EgressDeviceID l \<noteq> d') \<longrightarrow>
         (let c' = updateIngressLink tc tn tu p e' d' c
          in links c' p
               = Some \<lparr>EgressPort = e', EgressDeviceID = d', IngressPort = p, LastUpdate = tu\<rparr>
             \<and> sent c'
               = sent c @
                 [\<lparr>Timestamp = UnixNano tn,
                   Update = [(linkPath p @ ''/egress-port'', IntVal (ucast e')),
                             (linkPath p @ ''/egress-device'', StringVal d'),
                             (linkPath p @ ''/create-time'', UintVal (UnixNano tc))],
                   Delete = []\<rparr>]
             \<and> Root c' (linkPath p @ ''/egress-port'') = Some (Some (IntVal (ucast e')))
             \<and> Root c' (linkPath p @ ''/egress-device'') = Some (Some (StringVal d'))
             \<and> Root c' (linkPath p @ ''/create-time'') = Some (Some (UintVal (UnixNano tc)))))"
  by (auto simp: updateIngressLink_def Let_def addLinkToTree_def SendToAllResponders_def
        AddPath_def split: option.splits)

lemma linkPath_1: "linkPath 1 = ''state/link[port=1]''"
  by (simp add: linkPath_def decimal.simps)

theorem updateIngressLink_refresh_or_replace_witness:
  "(let c0 = NewController Absent ''sw1:9559'' ''agent1'';
        c1 = updateIngressLink 1 2 3 1 7 ''deviceB'' c0;
        c2 = updateIngressLink 4 5 6 1 7 ''deviceB'' c1;
        c3 = updateIngressLink 7 8 9 1 8 ''deviceC'' c2
    in links c1 1 = Some \<lparr>EgressPort = 7, EgressDeviceID = ''deviceB'', IngressPort = 1,
                            LastUpdate = 3\<rparr>
       \<and> links c2 1 = Some \<lparr>EgressPort = 7, EgressDeviceID = ''deviceB'', IngressPort = 1,
                              LastUpdate = 6\<rparr>
       \<and> sent c2 = sent c1 \<and> Root c2 = Root c1 \<and> length (sent c1) = 1
       \<and> links c3 1 = Some \<lparr>EgressPort = 8, EgressDeviceID = ''deviceC'', IngressPort = 1,
                              LastUpdate = 9\<rparr>
       \<and> sent c3 = sent c2 @
            [\<lparr>Timestamp = 8,
              Update = [(''state/link[port=1]/egress-port'', IntVal 8),
                        (''state/link[port=1]/egress-device'', StringVal ''deviceC''),
                        (''state/link[port=1]/create-time'', UintVal 7)],
              Delete = []\<rparr>])"
proof -
  let ?c0 = "NewController Absent ''sw1:9559'' ''agent1''"
  let ?c1 = "updateIngressLink 1 2 3 1 7 ''deviceB'' ?c0"
  let ?c2 = "updateIngressLink 4 5 6 1 7 ''deviceB'' ?c1"
  let ?c3 = "updateIngressLink 7 8 9 1 8 ''deviceC'' ?c2"
  have l1: "links ?c1 1 = Some \<lparr>EgressPort = 7, EgressDeviceID = ''deviceB'', IngressPort = 1,
                            LastUpdate = 3\<rparr>"
    and n1: "length (sent ?c1) = 1"
    by (simp_all add: updateIngressLink_def NewController_def Let_def addLinkToTree_def
          SendToAllResponders_def)
  note T = updateIngressLink_refresh_or_replace [of 1 2 3 1 7 "''deviceB''" ?c0 4 5 6]
  from T l1 have l2: "links ?c2 1 = Some \<lparr>EgressPort = 7, EgressDeviceID = ''deviceB'',
      IngressPort = 1, LastUpdate = 6\<rparr>"
    by (auto simp: Let_def)
  from T have s2: "sent ?c2 = sent ?c1" "Root ?c2 = Root ?c1"
    by (simp_all add: Let_def)
  note U = updateIngressLink_refresh_or_replace [where tc = 7 and tn = 8 and tu = 9 and p = 1
      and c = ?c2 and e' = 8 and d' = "''deviceC''"]
  from U l2 have l3: "links ?c3 1 = Some \<lparr>EgressPort = 8, EgressDeviceID = ''deviceC'',
      IngressPort = 1, LastUpdate = 9\<rparr>"
    and s3: "sent ?c3 = sent ?c2 @
            [\<lparr>Timestamp = UnixNano 8,
              Update = [(linkPath 1 @ ''/egress-port'', IntVal (ucast (8::uint32))),
                        (linkPath 1 @ ''/egress-device'', StringVal ''deviceC''),
                        (linkPath 1 @ ''/create-time'', UintVal (UnixNano 7))],
              Delete = []\<rparr>]"
    by (simp_all add: Let_def)
  show ?thesis
    unfolding Let_def using l1 n1 l2 s2 l3 s3 by (simp add: linkPath_1 UnixNano_def)
qed

section \<open>Stopping the worker\<close>

text \<open>
  C5. The specification has \<open>Stopped\<close> terminal, also against the write of the handler
  of \<open>Reconfigured\<close>, and the worker leave its loop after \<^verbatim>\<open>Stop\<close>. \<^verbatim>\<open>reenterDiscovery\<close> writes \<open>Configured\<close> unconditionally. When
  the worker has read \<open>Reconfigured\<close> and \<^verbatim>\<open>Stop\<close> is called before the handler runs, the
  state is \<open>Stopped\<close> after the call and \<open>Configured\<close> again after the handler; the worker
  then reads \<open>Configured\<close> and goes on into \<^verbatim>\<open>enterDiscovery\<close> instead of returning.
\<close>

theorem Stop_lost_to_reenterDiscovery:
  "exec h [Worker, CallStop]
     \<lparr>ctrl = setState Reconfigured c, worker = RunLoop, listeners = n\<rparr>
   = Inr \<lparr>ctrl = Stop (setState Reconfigured c), worker = Dispatched Reconfigured,
          listeners = n\<rparr>
   \<and> state (Stop (setState Reconfigured c)) = Stopped
   \<and> exec h [Worker, CallStop, Worker, Worker]
        \<lparr>ctrl = setState Reconfigured c, worker = RunLoop, listeners = n\<rparr>
      = Inr \<lparr>ctrl = setState Configured (Stop (setState Reconfigured c)),
             worker = Dispatched Configured, listeners = n\<rparr>
   \<and> state (setState Configured (Stop (setState Reconfigured c))) = Configured"
  by (simp add: getState_def setState_def Stop_def reenterDiscovery_def Let_def)

theorem Stop_lost_to_reenterDiscovery_witness:
  "(let h = \<lparr>waitForDeviceConnection = id, waitForPipelineConfiguration = id,
             waitForMastershipArbitration = id, discoverPorts = id,
             programPacketInterceptRules = id, emitLLDPPackets = id,
             validatePipelineConfiguration = id\<rparr>;
        s0 = \<lparr>ctrl = setState Reconfigured (NewController Absent ''sw1:9559'' ''agent1''),
              worker = RunLoop, listeners = 1\<rparr>
    in map_sum id (\<lambda>s. (state (ctrl s), worker s)) (exec h [Worker, CallStop] s0)
         = Inr (Stopped, Dispatched Reconfigured)
       \<and> map_sum id (\<lambda>s. (state (ctrl s), worker s))
            (exec h [Worker, CallStop, Worker, Worker] s0)
         = Inr (Configured, Dispatched Configured))"
  using Stop_lost_to_reenterDiscovery
    [where h = "\<lparr>waitForDeviceConnection = id, waitForPipelineConfiguration = id,
             waitForMastershipArbitration = id, discoverPorts = id,
             programPacketInterceptRules = id, emitLLDPPackets = id,
             validatePipelineConfiguration = id\<rparr>"
       and c = "NewController Absent ''sw1:9559'' ''agent1''" and n = 1]
  by (simp add: Let_def)

section \<open>The snapshot of the links\<close>

lemma set_map_filter_dom:
  "set order = dom m \<Longrightarrow> set (List.map_filter m order) = ran m"
  by (force simp: List.map_filter_def ran_def dom_def image_iff)

lemma length_map_filter_dom:
  "set order \<subseteq> dom m \<Longrightarrow> length (List.map_filter m order) = length order"
  by (induction order) (auto simp: map_filter_simps split: option.splits)

lemma map_filter_coherent:
  assumes "\<forall>k l. m k = Some l \<longrightarrow> f l = k" "set order \<subseteq> dom m"
  shows "map f (List.map_filter m order) = order"
  using assms(2)
proof (induction order)
  case Nil
  then show ?case by (simp add: map_filter_simps)
next
  case (Cons k ks)
  then obtain l where "m k = Some l" by auto
  with Cons assms(1) show ?case by (simp add: map_filter_simps)
qed

lemma map_filter_as_map:
  "set order \<subseteq> dom m \<Longrightarrow> List.map_filter m order = map (\<lambda>k. the (m k)) order"
  by (induction order) (auto simp: map_filter_simps split: option.splits)

lemma map_insort_key: "map f (insort_key f x xs) = insort (f x) (map f xs)"
  by (induction xs) simp_all

lemma map_sort_key: "map f (sort_key f xs) = sort (map f xs)"
  by (induction xs) (simp_all add: map_insort_key)

text \<open>
  C6. Whatever order the \<^verbatim>\<open>range\<close> loop visits the keys in (each key of the registry
  once), \<^verbatim>\<open>GetLinks\<close> returns a list sorted by ingress port that holds exactly the
  links of the registry, one for each key; when every link is stored under its own
  ingress port, the ingress ports returned are the keys in ascending order. The result is
  a list built from the registry, and the controller itself is not changed.
\<close>

theorem GetLinks_sorted_snapshot:
  assumes "distinct order" and "set order = dom (links c)"
  shows "sorted (map IngressPort (GetLinks order c))
       \<and> set (GetLinks order c) = ran (links c)
       \<and> length (GetLinks order c) = card (dom (links c))
       \<and> mset (GetLinks order c) = image_mset (\<lambda>k. the (links c k)) (mset_set (dom (links c)))
       \<and> (key_coherent c \<longrightarrow>
            map IngressPort (GetLinks order c) = sorted_list_of_set (dom (links c)))"
proof -
  have sub: "set order \<subseteq> dom (links c)" using assms(2) by simp
  have 1: "sorted (map IngressPort (GetLinks order c))"
    by (simp add: GetLinks_def)
  have 2: "set (GetLinks order c) = ran (links c)"
    by (simp add: GetLinks_def set_map_filter_dom [OF assms(2)])
  have 3: "length (GetLinks order c) = card (dom (links c))"
    using assms distinct_card [of order]
    by (simp add: GetLinks_def length_map_filter_dom [OF sub])
  have m: "mset order = mset_set (dom (links c))"
    using assms by (metis mset_set_set)
  have "mset (GetLinks order c) = image_mset (\<lambda>k. the (links c k)) (mset order)"
    by (simp add: GetLinks_def map_filter_as_map [OF sub])
  then have 4: "mset (GetLinks order c)
      = image_mset (\<lambda>k. the (links c k)) (mset_set (dom (links c)))"
    by (simp only: m)
  have 5: "map IngressPort (GetLinks order c) = sorted_list_of_set (dom (links c))"
    if "key_coherent c"
  proof -
    from that have coh: "\<forall>k l. links c k = Some l \<longrightarrow> IngressPort l = k"
      by (simp add: key_coherent_def)
    have "map IngressPort (GetLinks order c) = sort (map IngressPort (List.map_filter (links c) order))"
      by (simp add: GetLinks_def map_sort_key)
    also have "\<dots> = sort order"
      by (simp add: map_filter_coherent [OF coh sub])
    also have "\<dots> = sorted_list_of_set (dom (links c))"
      using assms by (metis sorted_list_of_set_sort_remdups distinct_remdups_id)
    finally show ?thesis .
  qed
  from 1 2 3 4 5 show ?thesis by blast
qed

theorem GetLinks_sorted_snapshot_witness:
  "(let c = updateIngressLink 7 8 9 3 13 ''deviceD''
              (updateIngressLink 4 5 6 1 11 ''deviceC''
                (updateIngressLink 1 2 3 5 7 ''deviceB''
                  (NewController Absent ''sw1:9559'' ''agent1'')))
    in distinct [3, 5, 1 :: uint32] \<and> set [3, 5, 1] = dom (links c)
       \<and> sorted (map IngressPort (GetLinks [3, 5, 1] c))
       \<and> length (GetLinks [3, 5, 1] c) = card (dom (links c))
       \<and> GetLinks [3, 5, 1] c =
           [\<lparr>EgressPort = 11, EgressDeviceID = ''deviceC'', IngressPort = 1, LastUpdate = 6\<rparr>,
            \<lparr>EgressPort = 13, EgressDeviceID = ''deviceD'', IngressPort = 3, LastUpdate = 9\<rparr>,
            \<lparr>EgressPort = 7, EgressDeviceID = ''deviceB'', IngressPort = 5, LastUpdate = 3\<rparr>]
       \<and> map IngressPort (GetLinks [3, 5, 1] c) = [1, 3, 5])"
proof -
  let ?c = "updateIngressLink 7 8 9 3 13 ''deviceD''
              (updateIngressLink 4 5 6 1 11 ''deviceC''
                (updateIngressLink 1 2 3 5 7 ''deviceB''
                  (NewController Absent ''sw1:9559'' ''agent1'')))"
  have L: "links ?c =
      [5 \<mapsto> \<lparr>EgressPort = 7, EgressDeviceID = ''deviceB'', IngressPort = 5, LastUpdate = 3\<rparr>,
       1 \<mapsto> \<lparr>EgressPort = 11, EgressDeviceID = ''deviceC'', IngressPort = 1, LastUpdate = 6\<rparr>,
       3 \<mapsto> \<lparr>EgressPort = 13, EgressDeviceID = ''deviceD'', IngressPort = 3, LastUpdate = 9\<rparr>]"
    by (simp add: updateIngressLink_def NewController_def Let_def addLinkToTree_def
          SendToAllResponders_def)
  have d: "distinct [3, 5, 1 :: uint32]" by simp
  have e: "set [3, 5, 1] = dom (links ?c)" by (auto simp: L)
  have g: "GetLinks [3, 5, 1] ?c =
           [\<lparr>EgressPort = 11, EgressDeviceID = ''deviceC'', IngressPort = 1, LastUpdate = 6\<rparr>,
            \<lparr>EgressPort = 13, EgressDeviceID = ''deviceD'', IngressPort = 3, LastUpdate = 9\<rparr>,
            \<lparr>EgressPort = 7, EgressDeviceID = ''deviceB'', IngressPort = 5, LastUpdate = 3\<rparr>]"
    by (simp add: GetLinks_def L map_filter_simps word_le_nat_alt)
  from GetLinks_sorted_snapshot [OF d e]
  have "sorted (map IngressPort (GetLinks [3, 5, 1] ?c))"
    and "length (GetLinks [3, 5, 1] ?c) = card (dom (links ?c))"
    by blast+
  with d e g show ?thesis unfolding Let_def by simp
qed

section \<open>The exit of the steady-state loop\<close>

text \<open>
  At the head of its loop \<^verbatim>\<open>enterDiscovery\<close> goes on to the \<^verbatim>\<open>select\<close> when the
  state it reads is \<open>Configured\<close> and returns to the loop of \<^verbatim>\<open>run\<close> otherwise; a tick
  is handled only by a worker that waits in the \<^verbatim>\<open>select\<close>.
\<close>

lemma enterDiscovery_loop_exit:
  "worker s = DiscoveryLoop \<Longrightarrow>
     worker_step h s =
       Inr (s\<lparr>worker := (if state (ctrl s) = Configured then DiscoverySelect else RunLoop)\<rparr>)"
  by (simp add: getState_def)

lemma Fire_outside_select:
  "worker s \<noteq> DiscoverySelect \<Longrightarrow> act h (Fire t) s = Inr s"
  by simp

section \<open>Adding and evicting a host\<close>

text \<open>
  C8. The specification has the eviction of a host delete every path that adding it
  created.
  \<^verbatim>\<open>addHostToTree\<close> writes the port under \<^verbatim>\<open>state/host[mac=...]\<close> but the IP address
  and the create time under \<^verbatim>\<open>state/link[mac=...]\<close>; \<^verbatim>\<open>removeHostFromTree\<close> deletes
  \<^verbatim>\<open>state/host[mac=...]\<close> only. For every MAC address, after \<^verbatim>\<open>updateHost\<close> on a
  controller with an allocated hosts map that has no entry for it, followed by
  \<^verbatim>\<open>deleteHost\<close>, the host is gone from the map and its port path from the tree, and
  the IP address and the create time are still in the tree.
\<close>

theorem deleteHost_leaves_host_paths:
  "(case updateHost tc tn tu mac ip port (c\<lparr>hosts := Some (m(mac := None))\<rparr>) of
      Inl e \<Rightarrow> False
    | Inr c1 \<Rightarrow>
        (let c2 = deleteHost td mac c1
         in hosts c1 = Some (m(mac \<mapsto> \<lparr>MAC = mac, IP = ip, Port = port, LastUpdate = tu\<rparr>))
            \<and> hosts c2 = Some (m(mac := None))
            \<and> Root c2 (''state/host[mac='' @ mac @ '']/port'') = None
            \<and> Root c2 (''state/link[mac='' @ mac @ '']/ip-address'') = Some (Some (StringVal ip))
            \<and> Root c2 (''state/link[mac='' @ mac @ '']/create-time'')
                = Some (Some (UintVal (UnixNano tc)))))"
  by (simp add: updateHost_def deleteHost_def addHostToTree_def removeHostFromTree_def
        SendToAllResponders_def AddPath_def DeletePath_def Let_def)

theorem deleteHost_leaves_host_paths_witness:
  "(case updateHost 1 2 3 ''aa:bb:cc:dd:ee:ff'' ''10.0.0.1'' 4
           ((NewController Absent ''sw1:9559'' ''agent1'')\<lparr>hosts := Some Map.empty\<rparr>) of
      Inl e \<Rightarrow> False
    | Inr c1 \<Rightarrow>
        (let c2 = deleteHost 5 ''aa:bb:cc:dd:ee:ff'' c1
         in hosts c1 = Some [''aa:bb:cc:dd:ee:ff'' \<mapsto>
                \<lparr>MAC = ''aa:bb:cc:dd:ee:ff'', IP = ''10.0.0.1'', Port = 4, LastUpdate = 3\<rparr>]
            \<and> hosts c2 = Some Map.empty
            \<and> Root c2 ''state/host[mac=aa:bb:cc:dd:ee:ff]/port'' = None
            \<and> Root c2 ''state/link[mac=aa:bb:cc:dd:ee:ff]/ip-address''
                = Some (Some (StringVal ''10.0.0.1''))
            \<and> Root c2 ''state/link[mac=aa:bb:cc:dd:ee:ff]/create-time''
                = Some (Some (UintVal 1))))"
  using deleteHost_leaves_host_paths [where tc = 1 and tn = 2 and tu = 3
      and mac = "''aa:bb:cc:dd:ee:ff''" and ip = "''10.0.0.1''" and port = 4
      and c = "NewController Absent ''sw1:9559'' ''agent1''" and m = Map.empty and td = 5]
  by (simp add: UnixNano_def split: sum.splits)

section \<open>Key coherence of the registries\<close>

lemma key_coherent_updateIngressLink:
  "key_coherent c \<Longrightarrow> key_coherent (updateIngressLink tc tn tu p e d c)"
  by (auto simp: key_coherent_def updateIngressLink_def Let_def addLinkToTree_def
        SendToAllResponders_def split: option.splits if_splits)

lemma key_coherent_deleteLink:
  "key_coherent c \<Longrightarrow> key_coherent (deleteLink tn p c)"
  by (auto simp: key_coherent_def deleteLink_def removeLinkFromTree_def
        SendToAllResponders_def Let_def split: if_splits)

lemma key_coherent_deleteHost:
  "key_coherent c \<Longrightarrow> key_coherent (deleteHost tn m c)"
  by (auto simp: key_coherent_def deleteHost_def removeHostFromTree_def
        SendToAllResponders_def Let_def split: if_splits)

lemma key_coherent_updateHost:
  "key_coherent c \<Longrightarrow> updateHost tc tn tu m i p c = Inr c' \<Longrightarrow> key_coherent c'"
  by (auto simp: key_coherent_def updateHost_def Let_def addHostToTree_def
        SendToAllResponders_def split: option.splits if_splits)

lemma key_coherent_fold:
  assumes "\<And>x c. key_coherent c \<Longrightarrow> key_coherent (f x c)"
  shows "key_coherent c \<Longrightarrow> key_coherent (fold f xs c)"
  by (induction xs arbitrary: c) (simp_all add: assms)

lemma key_coherent_pruneLinks:
  "key_coherent c \<Longrightarrow> key_coherent (pruneLinks now tdel order c)"
  unfolding pruneLinks_def Let_def
  by (rule key_coherent_fold) (auto split: option.splits intro: key_coherent_deleteLink)

lemma key_coherent_pruneHosts:
  "key_coherent c \<Longrightarrow> key_coherent (pruneHosts now tdel order c)"
  unfolding pruneHosts_def Let_def
  by (rule key_coherent_fold) (auto split: option.splits intro: key_coherent_deleteHost)

lemma key_coherent_apply_op:
  "key_coherent c \<Longrightarrow> apply_op x c = Inr c' \<Longrightarrow> key_coherent c'"
  by (cases x)
     (auto intro: key_coherent_updateIngressLink key_coherent_updateHost
        key_coherent_pruneLinks key_coherent_pruneHosts key_coherent_deleteLink
        key_coherent_deleteHost)

lemma key_coherent_apply_ops:
  "key_coherent c \<Longrightarrow> apply_ops xs c = Inr c' \<Longrightarrow> key_coherent c'"
proof (induction xs arbitrary: c)
  case Nil
  then show ?case by simp
next
  case (Cons x xs)
  then obtain c1 where 1: "apply_op x c = Inr c1" and 2: "apply_ops xs c1 = Inr c'"
    by (auto split: sum.splits)
  from key_coherent_apply_op [OF Cons.prems(1) 1] 2 Cons.IH show ?case by blast
qed

lemma key_coherent_NewController: "key_coherent (NewController file a b)"
  by (simp add: key_coherent_def NewController_def Let_def)

text \<open>
  C10. Every key of the links map is the ingress port of its link, and every key of the
  hosts map is the MAC address of its host, after any sequence of
  \<^verbatim>\<open>updateIngressLink\<close>, \<^verbatim>\<open>updateHost\<close>, \<^verbatim>\<open>pruneLinks\<close>, \<^verbatim>\<open>pruneHosts\<close>,
  \<^verbatim>\<open>deleteLink\<close> and \<^verbatim>\<open>deleteHost\<close> calls that runs to its end, from the controller
  that \<^verbatim>\<open>NewController\<close> returns and from any other controller of which this holds.
\<close>

theorem key_coherence_invariant:
  "(apply_ops xs (NewController file targetAddress agentID) = Inr c' \<longrightarrow> key_coherent c')
   \<and> (key_coherent c \<longrightarrow> apply_ops xs c = Inr c'' \<longrightarrow> key_coherent c'')"
  using key_coherent_apply_ops key_coherent_NewController by blast

theorem key_coherence_invariant_witness:
  "(\<exists>c'. apply_ops
           [UpdateIngressLink (1 * Second) (1 * Second) (1 * Second) 5 7 ''deviceB'',
            UpdateIngressLink (25 * Second) (25 * Second) (25 * Second) 1 11 ''deviceC'',
            PruneLinks (40 * Second) (\<lambda>k. 40 * Second) [1, 5],
            DeleteLink (50 * Second) 9]
           (NewController Absent ''sw1:9559'' ''agent1'') = Inr c'
         \<and> key_coherent c')
   \<and> key_coherent ((NewController Absent ''sw1:9559'' ''agent1'')\<lparr>hosts := Some Map.empty\<rparr>)
   \<and> (\<exists>c''. apply_ops
           [UpdateHost 1 2 3 ''aa:bb:cc:dd:ee:ff'' ''10.0.0.1'' 4,
            UpdateHost 4 5 6 ''aa:bb:cc:dd:ee:00'' ''10.0.0.2'' 5,
            UpdateHost 7 8 9 ''aa:bb:cc:dd:ee:ff'' ''10.0.0.1'' 4,
            PruneHosts (40 * Minute) (\<lambda>k. 40 * Minute) [''aa:bb:cc:dd:ee:00''],
            DeleteHost 50 ''aa:bb:cc:dd:ee:00'']
           ((NewController Absent ''sw1:9559'' ''agent1'')\<lparr>hosts := Some Map.empty\<rparr>) = Inr c''
         \<and> key_coherent c'')"
proof -
  let ?n = "NewController Absent ''sw1:9559'' ''agent1''"
  let ?xs = "[UpdateIngressLink (1 * Second) (1 * Second) (1 * Second) 5 7 ''deviceB'',
            UpdateIngressLink (25 * Second) (25 * Second) (25 * Second) 1 11 ''deviceC'',
            PruneLinks (40 * Second) (\<lambda>k. 40 * Second) [1, 5],
            DeleteLink (50 * Second) 9]"
  let ?h = "?n\<lparr>hosts := Some Map.empty\<rparr>"
  let ?ys = "[UpdateHost 1 2 3 ''aa:bb:cc:dd:ee:ff'' ''10.0.0.1'' 4,
            UpdateHost 4 5 6 ''aa:bb:cc:dd:ee:00'' ''10.0.0.2'' 5,
            UpdateHost 7 8 9 ''aa:bb:cc:dd:ee:ff'' ''10.0.0.1'' 4,
            PruneHosts (40 * Minute) (\<lambda>k. 40 * Minute) [''aa:bb:cc:dd:ee:00''],
            DeleteHost 50 ''aa:bb:cc:dd:ee:00'']"
  obtain c' where 1: "apply_ops ?xs ?n = Inr c'"
    by simp
  have kh: "key_coherent ?h"
    by (simp add: key_coherent_def NewController_def Let_def)
  obtain c'' where 2: "apply_ops ?ys ?h = Inr c''"
    by (simp add: updateHost_def Let_def addHostToTree_def SendToAllResponders_def)
  from key_coherence_invariant [of ?xs Absent "''sw1:9559''" "''agent1''" c'] 1
  have 3: "key_coherent c'" by blast
  from key_coherence_invariant [where c = ?h and xs = ?ys and c'' = c''] kh 2
  have 4: "key_coherent c''" by blast
  from 1 2 3 4 kh show ?thesis by blast
qed

end
